theory Spec2Isabelle
  imports Complex_Main
begin

section \<open>JavaScript values used by the plugin\<close>

text \<open>
  A JavaScript number is either a finite value or \<open>NaN\<close>. The plugin computes with
  millisecond time stamps and with a probability; the rounding of binary floating point
  is not modelled, the value \<open>NaN\<close> and the way comparisons treat it are.
\<close>

datatype number = Num real | NaN

definition num_ge :: "number \<Rightarrow> number \<Rightarrow> bool" where
  "num_ge a b = (case a of NaN \<Rightarrow> False | Num x \<Rightarrow> (case b of NaN \<Rightarrow> False | Num y \<Rightarrow> y \<le> x))"

definition num_lt :: "number \<Rightarrow> number \<Rightarrow> bool" where
  "num_lt a b = (case a of NaN \<Rightarrow> False | Num x \<Rightarrow> (case b of NaN \<Rightarrow> False | Num y \<Rightarrow> x < y))"

text \<open>
  Strings are lists of code units. Isabelle's \<open>char\<close> has eight bits, so a title here
  ranges over the code units U+0000 to U+00FF; \<open>String.prototype.trim\<close> strips white
  space and line terminators, which in that range are TAB, LF, VT, FF, CR, SPACE and
  the no-break space.
\<close>

definition isWhiteSpace :: "char \<Rightarrow> bool" where
  "isWhiteSpace c = (c \<in> set [CHR 0x09, CHR 0x0A, CHR 0x0B, CHR 0x0C, CHR 0x0D, CHR 0x20, CHR 0xA0])"

definition trim :: "string \<Rightarrow> string" where
  "trim s = rev (dropWhile isWhiteSpace (rev (dropWhile isWhiteSpace s)))"

section \<open>Regular expressions, as far as the two patterns of the source need them\<close>

text \<open>
  The two patterns of \<open>topicIsEvent\<close> and \<open>secondsToEvent\<close> use character classes,
  literal characters, sequencing, capture groups, the greedy optional \<open>?\<close> and the
  bounded repetition \<open>{n}\<close>, under the flag \<open>i\<close>. The matcher below returns every way
  a pattern matches a prefix of the input in the order in which a backtracking matcher
  tries them: the head of the list is the match JavaScript reports.
\<close>

datatype atom = Single char | Range char char

datatype rx =
    Chr char
  | Cls bool "atom list"
  | Seq rx rx
  | Group nat rx
  | Opt rx

definition in_range :: "char \<Rightarrow> char \<Rightarrow> char \<Rightarrow> bool" where
  "in_range lo hi c = ((of_char lo :: nat) \<le> of_char c \<and> (of_char c :: nat) \<le> of_char hi)"

text \<open>
  \<open>Canonicalize\<close> of the flag \<open>i\<close> (without \<open>u\<close>) maps a code unit to its upper case
  unless that would turn a non-ASCII unit into an ASCII one. All class members and
  literals of the two patterns are ASCII, so only the ASCII letters matter: a non-ASCII
  unit is never canonically equal to one of them.
\<close>

definition canonicalize :: "char \<Rightarrow> char" where
  "canonicalize c = (if in_range CHR ''a'' CHR ''z'' c then char_of (of_char c - (32::nat)) else c)"

definition uncanonicalize :: "char \<Rightarrow> char" where
  "uncanonicalize c = (if in_range CHR ''A'' CHR ''Z'' c then char_of (of_char c + (32::nat)) else c)"

fun atom_has :: "atom \<Rightarrow> char \<Rightarrow> bool" where
  "atom_has (Single x) c = (x = c)"
| "atom_has (Range lo hi) c = in_range lo hi c"

text \<open>
  A class contains \<open>c\<close> under \<open>i\<close> when one of its members has the canonical form of
  \<open>c\<close>; the members with that canonical form are \<open>c\<close> itself, its upper case and its
  lower case.
\<close>

definition cls_found :: "atom list \<Rightarrow> char \<Rightarrow> bool" where
  "cls_found as c =
     list_ex (\<lambda>a. atom_has a c \<or> atom_has a (canonicalize c) \<or> atom_has a (uncanonicalize c)) as"

type_synonym captures = "nat \<rightharpoonup> string"

fun ms :: "rx \<Rightarrow> captures \<Rightarrow> string \<Rightarrow> (captures \<times> string) list" where
  "ms (Chr c) k s =
     (case s of [] \<Rightarrow> []
      | x # xs \<Rightarrow> if canonicalize x = canonicalize c then [(k, xs)] else [])"
| "ms (Cls inverted as) k s =
     (case s of [] \<Rightarrow> []
      | x # xs \<Rightarrow> if cls_found as x \<noteq> inverted then [(k, xs)] else [])"
| "ms (Seq a b) k s = concat (map (\<lambda>(k', s'). ms b k' s') (ms a k s))"
| "ms (Group i r) k s =
     map (\<lambda>(k', s'). (k'(i \<mapsto> take (length s - length s') s), s')) (ms r k s)"
| "ms (Opt r) k s = ms r k s @ [(k, s)]"

text \<open>
  A list of patterns in sequence; the empty list matches the empty text only (an
  optional class without members).
\<close>

fun seqs :: "rx list \<Rightarrow> rx" where
  "seqs [] = Opt (Cls False [])"
| "seqs [r] = r"
| "seqs (r # rs) = Seq r (seqs rs)"

text \<open>\<open>r{n}\<close> is \<open>n\<close> copies of \<open>r\<close> in sequence.\<close>

definition times :: "nat \<Rightarrow> rx \<Rightarrow> rx list" where
  "times n r = replicate n r"

text \<open>
  \<open>String.prototype.match\<close> with a pattern without the flag \<open>g\<close>: the first start
  position at which the pattern matches, the matched text (index 0 of the result) and
  the captures (indices 1, 2, ...; a group that took no part is \<open>undefined\<close>), or
  \<open>null\<close>.
\<close>

definition match_at :: "rx \<Rightarrow> string \<Rightarrow> (string \<times> captures) option" where
  "match_at r s =
     (case ms r Map.empty s of [] \<Rightarrow> None
      | (k, rest) # _ \<Rightarrow> Some (take (length s - length rest) s, k))"

fun js_match :: "rx \<Rightarrow> string \<Rightarrow> (string \<times> captures) option" where
  "js_match r [] = match_at r []"
| "js_match r (x # xs) =
     (case match_at r (x # xs) of Some m \<Rightarrow> Some m | None \<Rightarrow> js_match r xs)"

section \<open>The event date parser\<close>

definition digit :: rx where
  "digit = Cls False [Range CHR ''0'' CHR ''9'']"

text \<open>\<open>([0-9]{4}-[0-9]{2}-[0-9]{2})\<close>, the first group of both patterns.\<close>

definition date_group :: rx where
  "date_group =
     Group 1 (seqs (times 4 digit @ [Chr CHR ''-''] @ times 2 digit @ [Chr CHR ''-''] @ times 2 digit))"

text \<open>\<open>[^0-9a-z]\<close>\<close>

definition separator :: rx where
  "separator = Cls True [Range CHR ''0'' CHR ''9'', Range CHR ''a'' CHR ''z'']"

text \<open>\<open>/([0-9]{4}-[0-9]{2}-[0-9]{2})([^0-9a-z])/i\<close>\<close>

definition topicIsEvent_rx :: rx where
  "topicIsEvent_rx = Seq date_group (Group 2 separator)"

text \<open>\<open>/([0-9]{4}-[0-9]{2}-[0-9]{2})( [0-9:+ ])?[^0-9a-z]/i\<close>\<close>

definition secondsToEvent_rx :: rx where
  "secondsToEvent_rx =
     Seq date_group
       (Seq (Opt (Group 2 (Seq (Chr CHR '' '')
                (Cls False [Range CHR ''0'' CHR ''9'', Single CHR '':'', Single CHR ''+'', Single CHR '' '']))))
            separator)"

text \<open>
  \<open>topicIsEvent\<close> returns the match array or \<open>null\<close>; its callers test the result for
  truth, and an array is always true.
\<close>

definition topicIsEvent :: "string \<Rightarrow> (string \<times> captures) option" where
  "topicIsEvent title = js_match topicIsEvent_rx (trim title)"

text \<open>
  The \<open>Date\<close> constructor parses a text that is not in the ISO format by rules of the
  engine and of the host's time zone, so it is a parameter: \<open>date text\<close> is the time
  value in milliseconds of \<open>new Date(text)\<close>, \<open>None\<close> for an invalid date (whose
  \<open>getTime()\<close> is \<open>NaN\<close>). \<open>setTime\<close> clips a time value beyond 8.64e15 milliseconds to
  an invalid date. \<open>now\<close> is \<open>new Date().getTime()\<close>.
\<close>

definition setTime :: "int option \<Rightarrow> int option" where
  "setTime t = (case t of None \<Rightarrow> None
     | Some v \<Rightarrow> if \<bar>v\<bar> \<le> 8640000000000000 then Some v else None)"

definition plus_ms :: "int option \<Rightarrow> int \<Rightarrow> int option" where
  "plus_ms t d = map_option (\<lambda>v. v + d) t"

definition seconds_until :: "int option \<Rightarrow> int \<Rightarrow> number" where
  "seconds_until t now = (case t of None \<Rightarrow> NaN | Some v \<Rightarrow> Num (real_of_int (v - now) / 1000))"

definition falsy_text :: "string option \<Rightarrow> bool" where
  "falsy_text t = (case t of None \<Rightarrow> True | Some s \<Rightarrow> s = [])"

definition secondsToEvent :: "(string \<Rightarrow> int option) \<Rightarrow> int \<Rightarrow> string \<Rightarrow> number" where
  "secondsToEvent date now title =
     (case js_match secondsToEvent_rx (trim title) of
        None \<Rightarrow> Num (- 1)
      | Some (whole, groups) \<Rightarrow>
          if whole = [] then Num (- 1)
          else
            let eventDate = date whole;
                eventDate' = (if falsy_text (groups 2)
                              then setTime (plus_ms eventDate (86400 * 1000))
                              else eventDate)
            in seconds_until eventDate' now)"

text \<open>
  The event classification in the words of the specification: the trimmed title
  contains a text of the shape YYYY-MM-DD, at once followed by a character that is
  neither a digit nor a letter of either case. Digits and letters are those of ASCII,
  as in the classes of the pattern.
\<close>

definition is_digit :: "char \<Rightarrow> bool" where
  "is_digit c = in_range CHR ''0'' CHR ''9'' c"

definition is_letter :: "char \<Rightarrow> bool" where
  "is_letter c = (in_range CHR ''a'' CHR ''z'' c \<or> in_range CHR ''A'' CHR ''Z'' c)"

definition is_date_text :: "string \<Rightarrow> bool" where
  "is_date_text d =
     (case d of
        [y1, y2, y3, y4, h1, m1, m2, h2, d1, d2] \<Rightarrow>
          is_digit y1 \<and> is_digit y2 \<and> is_digit y3 \<and> is_digit y4 \<and> h1 = CHR ''-'' \<and>
          is_digit m1 \<and> is_digit m2 \<and> h2 = CHR ''-'' \<and> is_digit d1 \<and> is_digit d2
      | _ \<Rightarrow> False)"

definition spec_isEvent :: "string \<Rightarrow> bool" where
  "spec_isEvent title =
     (\<exists>pre d sep post. trim title = pre @ d @ sep # post \<and> is_date_text d \<and>
        \<not> is_digit sep \<and> \<not> is_letter sep)"

text \<open>The words a pattern matches, for reasoning about \<open>ms\<close>.\<close>

fun lang :: "rx \<Rightarrow> string set" where
  "lang (Chr c) = {[x] | x. canonicalize x = canonicalize c}"
| "lang (Cls inverted as) = {[x] | x. cls_found as x \<noteq> inverted}"
| "lang (Seq a b) = {u @ v | u v. u \<in> lang a \<and> v \<in> lang b}"
| "lang (Group i r) = lang r"
| "lang (Opt r) = insert [] (lang r)"

text \<open>
  A \<open>Date\<close> constructor to evaluate examples with, for a host in the zone UTC: a text
  that begins with YYYY-MM-DD with a month from 1 to 12 and a day from 1 to 31 is
  midnight of that day, any other text is an invalid date.
\<close>

definition digits_value :: "string \<Rightarrow> int" where
  "digits_value ds = foldl (\<lambda>a c. 10 * a + (int (of_char c) - 48)) 0 ds"

definition days_from_civil :: "int \<Rightarrow> int \<Rightarrow> int \<Rightarrow> int" where
  "days_from_civil y m d =
     (let y' = (if m \<le> 2 then y - 1 else y);
          era = y' div 400;
          yoe = y' - era * 400;
          doy = (153 * (if 2 < m then m - 3 else m + 9) + 2) div 5 + d - 1;
          doe = yoe * 365 + yoe div 4 - yoe div 100 + doy
      in era * 146097 + doe - 719468)"

definition utcDate :: "string \<Rightarrow> int option" where
  "utcDate text =
     (if is_date_text (take 10 text) then
        let y = digits_value (take 4 text);
            m = digits_value (take 2 (drop 5 text));
            d = digits_value (take 2 (drop 8 text))
        in if 1 \<le> m \<and> m \<le> 12 \<and> 1 \<le> d \<and> d \<le> 31
           then Some (days_from_civil y m d * 86400000) else None
      else None)"

section \<open>The plugin hooks of plugin.ts\<close>

datatype json =
    JNull
  | JBool bool
  | JNum int
  | JStr string
  | JArr "json list"
  | JObj "(string \<times> json) list"

text \<open>
  An error object: its message, and its own enumerable properties, which are what
  \<open>JSON.stringify\<close> writes (the message of an \<open>Error\<close> is not enumerable).
\<close>

record error =
  message :: string
  enumerable :: "(string \<times> json) list"

text \<open>How a promise settles.\<close>

datatype 'a settled = Fulfilled 'a | Rejected error

text \<open>
  What a hook does is recorded in a state: the host's store of slots, the calls of
  \<open>notifyAutoUnslotted\<close> and the errors the callback (the caller's, or \<open>noop\<close>) was
  called with, \<open>None\<close> for \<open>null\<close>. \<open>unattendUser\<close> lives in lib/unattendUser and is a
  parameter: it reads and changes the store and settles with the number of removals.
  \<open>notifyAutoUnslotted\<close> and the callback are taken to return normally, so the handler
  of \<open>catch\<close> runs only when the promise of \<open>unattendUser\<close> rejects.
\<close>

record attendance_change =
  ac_tid :: nat
  ac_uid :: nat
  probability :: number

record 'db hook_state =
  store :: 'db
  notified :: "(nat \<times> nat \<times> nat) list"
  called_back :: "error option list"

definition callback :: "error option \<Rightarrow> 'db hook_state \<Rightarrow> 'db hook_state" where
  "callback err st = st\<lparr>called_back := called_back st @ [err]\<rparr>"

definition notifyAutoUnslotted :: "nat \<Rightarrow> nat \<Rightarrow> nat \<Rightarrow> 'db hook_state \<Rightarrow> 'db hook_state" where
  "notifyAutoUnslotted t u n st = st\<lparr>notified := notified st @ [(t, u, n)]\<rparr>"

definition catchAttendanceChange ::
  "(nat \<Rightarrow> nat \<Rightarrow> 'db \<Rightarrow> nat settled \<times> 'db) \<Rightarrow> attendance_change \<Rightarrow> 'db hook_state \<Rightarrow> 'db hook_state" where
  "catchAttendanceChange unattendUser params st =
     (if num_ge (probability params) (Num 1) then callback None st
      else
        (case unattendUser (ac_tid params) (ac_uid params) (store st) of
           (Fulfilled resultCount, db) \<Rightarrow>
             callback None
               ((if resultCount \<noteq> 0
                 then notifyAutoUnslotted (ac_tid params) (ac_uid params) resultCount
                 else id) (st\<lparr>store := db\<rparr>))
         | (Rejected e, db) \<Rightarrow> callback (Some e) (st\<lparr>store := db\<rparr>)))"

text \<open>
  \<open>filterAttendanceSlotted\<close>: the result is the parameter object after the call and the
  arguments the callback was called with. \<open>userIds = None\<close> is a property never
  assigned.
\<close>

record slotted_params =
  sp_tid :: nat
  userIds :: "nat list option"

definition filterAttendanceSlotted ::
  "(nat \<Rightarrow> nat list settled) \<Rightarrow> slotted_params \<Rightarrow> slotted_params \<times> (error option \<times> nat list) list" where
  "filterAttendanceSlotted getSlottedUserIds params =
     (let tid = sp_tid params in
      case getSlottedUserIds tid of
        Fulfilled ids \<Rightarrow> (params\<lparr>userIds := Some ids\<rparr>, [(None, ids)])
      | Rejected e \<Rightarrow> (params, [(Some e, [])]))"

section \<open>The access gates of the API module\<close>

text \<open>
  \<open>String.prototype.replace\<close> with a string pattern: the first occurrence of the
  pattern is replaced; in the replacement text \<open>$$\<close> stands for a dollar sign, \<open>$&\<close> for
  the matched text, \<open>$`\<close> for the text before the match and \<open>$'\<close> for the text after
  it, and every other character stands for itself (a string pattern has no capture to
  refer to).
\<close>

fun find_first :: "string \<Rightarrow> string \<Rightarrow> (string \<times> string) option" where
  "find_first pat [] = (if pat = [] then Some ([], []) else None)"
| "find_first pat (x # xs) =
     (if take (length pat) (x # xs) = pat then Some ([], drop (length pat) (x # xs))
      else map_option (\<lambda>(b, a). (x # b, a)) (find_first pat xs))"

fun substitution :: "string \<Rightarrow> string \<Rightarrow> string \<Rightarrow> string \<Rightarrow> string" where
  "substitution m b a [] = []"
| "substitution m b a [c] = [c]"
| "substitution m b a (c # d # r) =
     (if c = CHR ''$'' \<and> d = CHR ''$'' then CHR ''$'' # substitution m b a r
      else if c = CHR ''$'' \<and> d = CHR ''&'' then m @ substitution m b a r
      else if c = CHR ''$'' \<and> d = CHR 0x60 then b @ substitution m b a r
      else if c = CHR ''$'' \<and> d = CHR 0x27 then a @ substitution m b a r
      else c # substitution m b a (d # r))"

definition js_replace :: "string \<Rightarrow> string \<Rightarrow> string \<Rightarrow> string" where
  "js_replace subject pat replacement =
     (case find_first pat subject of
        None \<Rightarrow> subject
      | Some (b, a) \<Rightarrow> b @ substitution pat b a replacement @ a)"

text \<open>A value that is a string or \<open>undefined\<close>, turned into a string.\<close>

definition js_String :: "string option \<Rightarrow> string" where
  "js_String t = (case t of None \<Rightarrow> ''undefined'' | Some s \<Rightarrow> s)"

text \<open>
  \<open>parseInt(text, 10)\<close>: leading white space, a sign, then the longest run of digits;
  \<open>None\<close> is \<open>NaN\<close>. The loss of precision beyond 2^53 is not modelled.
\<close>

definition parseInt10 :: "string option \<Rightarrow> int option" where
  "parseInt10 t =
     (let s1 = dropWhile isWhiteSpace (js_String t);
          negative = (s1 \<noteq> [] \<and> hd s1 = CHR ''-'');
          s2 = (if s1 \<noteq> [] \<and> (hd s1 = CHR ''-'' \<or> hd s1 = CHR ''+'') then tl s1 else s1);
          ds = takeWhile is_digit s2
      in if ds = [] then None
         else Some ((if negative then - 1 else 1) * digits_value ds))"

definition truthy_number :: "int option \<Rightarrow> bool" where
  "truthy_number n = (case n of None \<Rightarrow> False | Some v \<Rightarrow> v \<noteq> 0)"

definition truthy_uid :: "nat option \<Rightarrow> bool" where
  "truthy_uid u = (case u of None \<Rightarrow> False | Some n \<Rightarrow> n \<noteq> 0)"

definition truthy_text :: "string option \<Rightarrow> bool" where
  "truthy_text t = (\<not> falsy_text t)"

datatype verb = GET | HEAD | POST | PUT | DELETE | PATCH | OPTIONS

text \<open>
  A request: the verb, the path split at the slashes, \<open>req.uid\<close> (the host sets 0 for
  a guest), \<open>req.header("X-Api-Key")\<close> and \<open>req.params\<close>, which the router fills from
  the pattern of the route it is running.
\<close>

record request =
  verb :: verb
  path :: "string list"
  uid :: "nat option"
  x_api_key :: "string option"
  params :: "string \<rightharpoonup> string"

text \<open>
  What a handler does with a request: it calls \<open>next()\<close>, it ends the request with a
  status and a JSON body, or it throws.
\<close>

datatype outcome = Next | Respond nat json | Throw error

text \<open>
  The module's mutable configuration, \<open>apiKey\<close> (\<open>None\<close> until \<open>setApiKey\<close> is called)
  and \<open>allowedCategories\<close>.
\<close>

record config =
  apiKey :: "string option"
  allowedCategories :: "nat list"

definition setApiKey :: "string \<Rightarrow> config \<Rightarrow> config" where
  "setApiKey newApiKey cfg = cfg\<lparr>apiKey := Some newApiKey\<rparr>"

definition setAllowedCategories :: "nat list \<Rightarrow> config \<Rightarrow> config" where
  "setAllowedCategories newAllowedCategories cfg = cfg\<lparr>allowedCategories := newAllowedCategories\<rparr>"

text \<open>
  The modules the gates call and that are not part of the sources at hand: the topic,
  share and user stores (a callback called with an error is \<open>Inl\<close>, with a result
  \<open>Inr\<close>), the attendance plugin's \<open>canSee\<close> and \<open>canAttend\<close>, the \<open>Date\<close> constructor
  and the clock, and the endpoints of lib/api, named as \<open>init\<close> names them.
\<close>

record host =
  topic_exists :: "string option \<Rightarrow> error + bool"
  topic_getTitle :: "string option \<Rightarrow> error + string option"
  topic_getCategoryId :: "string option \<Rightarrow> error + nat"
  topic_isAllowedToEdit :: "nat option \<Rightarrow> int \<Rightarrow> error + bool"
  canSee :: "nat option \<Rightarrow> string option \<Rightarrow> error + bool"
  canAttend :: "nat option \<Rightarrow> string option \<Rightarrow> error + bool"
  share_getFromDb :: "string option \<Rightarrow> string option \<Rightarrow> string \<Rightarrow> error + json option"
  user_getGroups :: "nat option list \<Rightarrow> error + (nat \<rightharpoonup> json)"
  host_Date :: "string \<Rightarrow> int option"
  host_now :: int
  endpoint :: "string \<Rightarrow> request \<Rightarrow> outcome"

definition exceptionToErrorResponse :: "error \<Rightarrow> json" where
  "exceptionToErrorResponse e = JObj [(''message'', JStr (message e))]"

text \<open>\<open>res.json(err)\<close> with an error object writes its own enumerable properties.\<close>

definition json_of_error :: "error \<Rightarrow> json" where
  "json_of_error e = JObj (enumerable e)"

definition msg :: "string \<Rightarrow> json" where
  "msg text = JObj [(''message'', JStr text)]"

definition requireEventInFuture :: "host \<Rightarrow> request \<Rightarrow> outcome" where
  "requireEventInFuture h req =
     (case topic_getTitle h (params req ''tid'') of
        Inl err \<Rightarrow> Respond 500 (exceptionToErrorResponse err)
      | Inr title \<Rightarrow>
          if falsy_text title then
            Respond 404 (msg (js_replace ''topic %d does not exist or doesnt have a title oO'' ''%d''
                                (js_String (params req ''tid''))))
          else if topicIsEvent (the title) = None then
            Respond 404 (msg (js_replace ''topic %d is no event'' ''%d'' (js_String (params req ''tid''))))
          else if num_lt (secondsToEvent (host_Date h) (host_now h) (the title)) (Num 0) then
            Respond 403 (msg (js_replace ''too late. event start of %d is passed'' ''%d''
                                (js_String (params req ''tid''))))
          else Next)"

definition requireTopic :: "host \<Rightarrow> request \<Rightarrow> outcome" where
  "requireTopic h req =
     (case topic_exists h (params req ''tid'') of
        Inl err \<Rightarrow> Respond 500 (exceptionToErrorResponse err)
      | Inr result \<Rightarrow>
          if \<not> result then
            Respond 404 (msg (js_replace ''topic %d does not exist'' ''%d'' (js_String (params req ''tid''))))
          else Next)"

definition methodNotAllowed :: "request \<Rightarrow> outcome" where
  "methodNotAllowed req = Respond 405 (msg ''Method not allowed'')"

definition restrictCategories :: "config \<Rightarrow> host \<Rightarrow> request \<Rightarrow> outcome" where
  "restrictCategories cfg h req =
     (if length (allowedCategories cfg) = 0 then Next
      else
        (case topic_getCategoryId h (params req ''tid'') of
           Inl err \<Rightarrow> Respond 500 (exceptionToErrorResponse err)
         | Inr cid \<Rightarrow>
             if cid \<notin> set (allowedCategories cfg) then Respond 404 (msg ''API disabled for this category'')
             else Next))"

definition requireLoggedIn :: "config \<Rightarrow> request \<Rightarrow> outcome" where
  "requireLoggedIn cfg req =
     (if truthy_text (apiKey cfg) \<and> x_api_key req = apiKey cfg then Next
      else if truthy_uid (uid req) then Next
      else Respond 401 (msg ''plz log in to access this API''))"

definition requireCanSeeAttendance :: "host \<Rightarrow> request \<Rightarrow> outcome" where
  "requireCanSeeAttendance h req =
     (case canSee h (uid req) (params req ''tid'') of
        Inl err \<Rightarrow> Throw err
      | Inr result \<Rightarrow> if result then Next else Respond 403 (msg ''you are not allowed to see this''))"

definition requireCanWriteAttendance :: "host \<Rightarrow> request \<Rightarrow> outcome" where
  "requireCanWriteAttendance h req =
     (if truthy_text (x_api_key req) then
        (case share_getFromDb h (params req ''tid'') (params req ''matchid'') (the (x_api_key req)) of
           Inr (Some share) \<Rightarrow> Next
         | _ \<Rightarrow> Respond 403 (msg ''Invalid share id''))
      else
        (case canAttend h (uid req) (params req ''tid'') of
           Inl err \<Rightarrow> Throw err
         | Inr result \<Rightarrow> if result then Next else Respond 403 (msg ''you are not allowed to edit this'')))"

text \<open>The line written to the log when the edit permission is refused is not modelled.\<close>

definition requireAdminOrThreadOwner :: "config \<Rightarrow> host \<Rightarrow> request \<Rightarrow> outcome" where
  "requireAdminOrThreadOwner cfg h req =
     (let tid = parseInt10 (params req ''tid'') in
      if truthy_text (apiKey cfg) \<and> x_api_key req = apiKey cfg then Next
      else if \<not> truthy_number tid \<or> \<not> truthy_uid (uid req) then
        Respond 400 (msg ''must be logged in and provide topic id'')
      else
        (case topic_isAllowedToEdit h (uid req) (the tid) of
           Inl err \<Rightarrow> Respond 500 (json_of_error err)
         | Inr result \<Rightarrow>
             if \<not> result then Respond 403 (msg ''You're not admin or owner of this topic'')
             else Next))"

text \<open>
  \<open>groups[req.uid]\<close> is \<open>undefined\<close> when the lookup has no entry for the user, and
  \<open>JSON.stringify\<close> leaves a property with that value out.
\<close>

definition isAdminOrThreadOwner :: "config \<Rightarrow> host \<Rightarrow> request \<Rightarrow> outcome" where
  "isAdminOrThreadOwner cfg h req =
     (let tid = parseInt10 (params req ''tid'');
          reqApiKey = x_api_key req in
      if truthy_text reqApiKey then Respond 200 (JObj [(''result'', JBool (reqApiKey = apiKey cfg))])
      else if \<not> truthy_uid (uid req) then
        Respond 200 (JObj [(''result'', JBool False), (''message'', JStr ''you're not logged in, btw'')])
      else if \<not> truthy_number tid then Respond 400 (JObj [(''error'', JStr ''must provide topic id'')])
      else
        (case topic_isAllowedToEdit h (uid req) (the tid) of
           Inl err \<Rightarrow> Respond 500 (json_of_error err)
         | Inr hasAdminPermission \<Rightarrow>
             (case user_getGroups h [uid req] of
                Inl error \<Rightarrow> Respond 500 (json_of_error error)
              | Inr groups \<Rightarrow>
                  Respond 200
                    (JObj ((case groups (the (uid req)) of None \<Rightarrow> [] | Some g \<Rightarrow> [(''groups'', g)])
                           @ [(''result'', JBool hasAdminPermission)])))))"

definition returnSuccess :: "request \<Rightarrow> outcome" where
  "returnSuccess req = Respond 200 (JObj [])"

section \<open>The routes registered by init\<close>

datatype handler =
    RequireTopic | RestrictCategories | RequireLoggedIn | RequireEventInFuture
  | RequireCanSeeAttendance | RequireCanWriteAttendance | RequireAdminOrThreadOwner
  | IsAdminOrThreadOwner | ReturnSuccess | MethodNotAllowed
  | Endpoint string

definition run_handler :: "config \<Rightarrow> host \<Rightarrow> handler \<Rightarrow> request \<Rightarrow> outcome" where
  "run_handler cfg h cb req =
     (case cb of
        RequireTopic \<Rightarrow> requireTopic h req
      | RestrictCategories \<Rightarrow> restrictCategories cfg h req
      | RequireLoggedIn \<Rightarrow> requireLoggedIn cfg req
      | RequireEventInFuture \<Rightarrow> requireEventInFuture h req
      | RequireCanSeeAttendance \<Rightarrow> requireCanSeeAttendance h req
      | RequireCanWriteAttendance \<Rightarrow> requireCanWriteAttendance h req
      | RequireAdminOrThreadOwner \<Rightarrow> requireAdminOrThreadOwner cfg h req
      | IsAdminOrThreadOwner \<Rightarrow> isAdminOrThreadOwner cfg h req
      | ReturnSuccess \<Rightarrow> returnSuccess req
      | MethodNotAllowed \<Rightarrow> methodNotAllowed req
      | Endpoint name \<Rightarrow> endpoint h name req)"

text \<open>The router methods \<open>get\<close>, \<open>post\<close>, \<open>delete\<close>, \<open>put\<close> and \<open>all\<close>.\<close>

datatype methodName = Get | Post | Delete | Put | All

type_synonym route = "methodName \<times> string \<times> handler"

definition prefixApiPath :: "string \<Rightarrow> string" where
  "prefixApiPath p = ''/api/arma3-slotting'' @ p"

text \<open>Every callback is registered as a route of its own, in the order given.\<close>

definition getApiMethodGenerator :: "methodName \<Rightarrow> string \<Rightarrow> handler list \<Rightarrow> route list" where
  "getApiMethodGenerator m p cbs = map (\<lambda>cb. (m, prefixApiPath p, cb)) cbs"

definition init :: "route list" where
  "init =
     (let get = getApiMethodGenerator Get;
          pos = getApiMethodGenerator Post;
          del = getApiMethodGenerator Delete;
          put = getApiMethodGenerator Put;
          all = getApiMethodGenerator All
      in concat [
        all ''/:tid'' [RequireTopic, RestrictCategories],
        all ''/:tid/*'' [RequireTopic, RestrictCategories],
        pos ''/:tid/*'' [RequireLoggedIn, RestrictCategories, RequireEventInFuture],
        put ''/:tid/*'' [RequireLoggedIn, RestrictCategories, RequireEventInFuture],
        del ''/:tid/*'' [RequireLoggedIn, RestrictCategories, RequireEventInFuture],

        get ''/:tid'' [RequireCanSeeAttendance, Endpoint ''matchApi.getAll''],

        get ''/:tid/slotted-user-ids'' [RequireCanSeeAttendance, Endpoint ''slottedUsersApi.get''],
        get ''/:tid/has-permissions'' [IsAdminOrThreadOwner, ReturnSuccess],

        pos ''/:tid/match'' [RequireAdminOrThreadOwner, Endpoint ''matchApi.post''],
        all ''/:tid/match'' [MethodNotAllowed],

        put ''/:tid/match/:matchid'' [RequireAdminOrThreadOwner, Endpoint ''matchApi.put''],
        get ''/:tid/match/:matchid'' [RequireCanSeeAttendance, Endpoint ''matchApi.get''],
        del ''/:tid/match/:matchid'' [RequireAdminOrThreadOwner, Endpoint ''matchApi.del''],
        all ''/:tid/match/:matchid'' [MethodNotAllowed],

        get ''/:tid/match/:matchid/share'' [RequireAdminOrThreadOwner, Endpoint ''shareApi.getAll''],
        get ''/:tid/match/:matchid/share/:shareid'' [RequireTopic, Endpoint ''shareApi.get''],
        pos ''/:tid/match/:matchid/share'' [RequireAdminOrThreadOwner, Endpoint ''shareApi.post''],
        del ''/:tid/match/:matchid/share'' [RequireAdminOrThreadOwner, Endpoint ''shareApi.del''],
        all ''/:tid/match/:matchid/share'' [MethodNotAllowed],

        get ''/:tid/match/:matchid/slot'' [RequireCanSeeAttendance, Endpoint ''slotApi.getAll''],
        all ''/:tid/match/:matchid/slot'' [MethodNotAllowed],

        put ''/:tid/match/:matchid/slot/:slotid/user'' [RequireCanWriteAttendance, Endpoint ''userApi.put''],
        del ''/:tid/match/:matchid/slot/:slotid/user'' [RequireCanWriteAttendance, Endpoint ''userApi.del''],
        get ''/:tid/match/:matchid/slot/:slotid/user'' [RequireCanSeeAttendance, Endpoint ''userApi.get''],
        all ''/:tid/match/:matchid/slot/:slotid/user'' [MethodNotAllowed],

        put ''/:tid/match/:matchid/slot/:slotid/reservation'' [RequireAdminOrThreadOwner, Endpoint ''reservationApi.put''],
        del ''/:tid/match/:matchid/slot/:slotid/reservation'' [RequireAdminOrThreadOwner, Endpoint ''reservationApi.del''],
        get ''/:tid/match/:matchid/slot/:slotid/reservation'' [RequireCanSeeAttendance, Endpoint ''reservationApi.get''],
        all ''/:tid/match/:matchid/slot/:slotid/reservation'' [MethodNotAllowed]
      ])"

text \<open>
  How the router of the host matches a route. A pattern is read segment by segment:
  \<open>:name\<close> takes one non-empty segment as the parameter \<open>name\<close>, \<open>*\<close> takes the rest
  of the path, which has at least one segment, and any other segment must be equal to
  the request's (the folding of case and the unnamed parameter of \<open>*\<close>, which no
  handler reads, are left out). A route registered with \<open>get\<close> also serves HEAD, one
  registered with \<open>all\<close> serves every verb.
\<close>

datatype seg = Lit string | Param string | Wildcard

fun split_on :: "char \<Rightarrow> string \<Rightarrow> string list" where
  "split_on c [] = [[]]"
| "split_on c (x # xs) =
     (if x = c then [] # split_on c xs
      else (case split_on c xs of [] \<Rightarrow> [[x]] | y # ys \<Rightarrow> (x # y) # ys))"

definition compile_seg :: "string \<Rightarrow> seg" where
  "compile_seg s =
     (if s = ''*'' then Wildcard
      else (case s of [] \<Rightarrow> Lit s | c # n \<Rightarrow> if c = CHR '':'' then Param n else Lit s))"

definition compile :: "string \<Rightarrow> seg list" where
  "compile p = map compile_seg (filter (\<lambda>s. s \<noteq> []) (split_on CHR ''/'' p))"

fun seg_match :: "seg list \<Rightarrow> string list \<Rightarrow> (string \<rightharpoonup> string) option" where
  "seg_match [] [] = Some Map.empty"
| "seg_match [] (s # ss) = None"
| "seg_match (Wildcard # ps) ss = (if ss \<noteq> [] \<and> ps = [] then Some Map.empty else None)"
| "seg_match (Lit l # ps) [] = None"
| "seg_match (Lit l # ps) (s # ss) = (if l = s then seg_match ps ss else None)"
| "seg_match (Param n # ps) [] = None"
| "seg_match (Param n # ps) (s # ss) =
     (if s = [] then None
      else (case seg_match ps ss of None \<Rightarrow> None | Some m \<Rightarrow> Some (m(n \<mapsto> s))))"

definition handles :: "methodName \<Rightarrow> verb \<Rightarrow> bool" where
  "handles m v =
     (case m of
        All \<Rightarrow> True
      | Get \<Rightarrow> v = GET \<or> v = HEAD
      | Post \<Rightarrow> v = POST
      | Put \<Rightarrow> v = PUT
      | Delete \<Rightarrow> v = DELETE)"

text \<open>
  The routes are tried in the order of their registration; a handler that calls
  \<open>next()\<close> hands the request to the following route. \<open>Next\<close> as the result of the
  whole list means that no route of the plugin ended the request.
\<close>

fun dispatch :: "config \<Rightarrow> host \<Rightarrow> route list \<Rightarrow> request \<Rightarrow> outcome" where
  "dispatch cfg h [] req = Next"
| "dispatch cfg h ((m, pat, cb) # rs) req =
     (if handles m (verb req) then
        (case seg_match (compile pat) (path req) of
           None \<Rightarrow> dispatch cfg h rs req
         | Some ps \<Rightarrow>
             (case run_handler cfg h cb (req\<lparr>params := ps\<rparr>) of
                Next \<Rightarrow> dispatch cfg h rs req
              | out \<Rightarrow> out))
      else dispatch cfg h rs req)"

definition handle :: "config \<Rightarrow> host \<Rightarrow> request \<Rightarrow> outcome" where
  "handle cfg h req = dispatch cfg h init req"

text \<open>
  Examples are evaluated with a store that lists the occupied slots as pairs of a slot
  and its occupant; removing a user drops the user's pairs and counts them.
\<close>

definition removeUser :: "nat \<Rightarrow> nat \<Rightarrow> (nat \<times> nat) list \<Rightarrow> nat settled \<times> (nat \<times> nat) list" where
  "removeUser t u db = (Fulfilled (length (filter (\<lambda>(slot, occupant). occupant = u) db)),
                        filter (\<lambda>(slot, occupant). occupant \<noteq> u) db)"

text \<open>
  A host to evaluate examples with. Topic 5 exists, is titled as an event of the year
  2999 and may be edited by user 1; every logged-in user may attend; match 9 of topic 5
  has one share, \<open>share-abc\<close>; user 1 is in the group of administrators; the clock
  shows noon of 2024-05-01 in UTC; every endpoint answers 200 with an empty object.
\<close>

definition sample_host :: host where
  "sample_host =
     \<lparr>topic_exists = (\<lambda>t. Inr (t = Some ''5'')),
      topic_getTitle = (\<lambda>t. Inr (if t = Some ''5'' then Some ''Raid 2999-05-01 Night'' else None)),
      topic_getCategoryId = (\<lambda>t. Inr 2),
      topic_isAllowedToEdit = (\<lambda>u t. Inr (u = Some 1 \<and> t = 5)),
      canSee = (\<lambda>u t. Inr True),
      canAttend = (\<lambda>u t. Inr (truthy_uid u)),
      share_getFromDb = (\<lambda>t m k. Inr (if t = Some ''5'' \<and> m = Some ''9'' \<and> k = ''share-abc''
                                        then Some (JObj [(''id'', JStr ''share-abc'')]) else None)),
      user_getGroups = (\<lambda>us. Inr (\<lambda>u. if u = 1 then Some (JArr [JStr ''administrators'']) else None)),
      host_Date = utcDate,
      host_now = 1714564800000,
      endpoint = (\<lambda>name req. Respond 200 (JObj []))\<rparr>"

definition sample_config :: config where
  "sample_config = setApiKey ''secret'' \<lparr>apiKey = None, allowedCategories = []\<rparr>"

text \<open>The same host with a database whose edit-permission lookup fails.\<close>

definition db_down :: error where
  "db_down = \<lparr>message = ''db down'', enumerable = []\<rparr>"

definition failing_host :: host where
  "failing_host = sample_host\<lparr>topic_isAllowedToEdit := (\<lambda>u t. Inl db_down), canSee := (\<lambda>u t. Inl db_down)\<rparr>"

text \<open>Reading a response: its status, and a field of its body.\<close>

definition status_of :: "outcome \<Rightarrow> nat option" where
  "status_of out = (case out of Respond status body \<Rightarrow> Some status | _ \<Rightarrow> None)"

definition field_of :: "string \<Rightarrow> outcome \<Rightarrow> json option" where
  "field_of name out =
     (case out of Respond status (JObj members) \<Rightarrow> map_of members name | _ \<Rightarrow> None)"

text \<open>
  The table of the HTTP surface as the specification lists it: the verbs of each
  path.
\<close>

definition surface :: "(string \<times> verb list) list" where
  "surface =
     [(''/:tid'', [GET]),
      (''/:tid/slotted-user-ids'', [GET]),
      (''/:tid/has-permissions'', [GET]),
      (''/:tid/match'', [POST]),
      (''/:tid/match/:matchid'', [PUT, GET, DELETE]),
      (''/:tid/match/:matchid/share'', [GET, POST, DELETE]),
      (''/:tid/match/:matchid/share/:shareid'', [GET]),
      (''/:tid/match/:matchid/slot'', [GET]),
      (''/:tid/match/:matchid/slot/:slotid/user'', [PUT, DELETE, GET]),
      (''/:tid/match/:matchid/slot/:slotid/reservation'', [PUT, DELETE, GET])]"

text \<open>The paths of the table for which \<open>init\<close> registers \<open>methodNotAllowed\<close>.\<close>

definition guarded :: "(string \<times> verb list) list" where
  "guarded = filter (\<lambda>(p, vs). (All, prefixApiPath p, MethodNotAllowed) \<in> set init) surface"

text \<open>Requests to evaluate examples with.\<close>

definition probe_request :: request where
  "probe_request =
     \<lparr>verb = GET, path = [''api'', ''arma3-slotting'', ''5'', ''has-permissions''],
      uid = Some 1, x_api_key = None, params = [''tid'' \<mapsto> ''5'']\<rparr>"

definition put_user_with_key :: request where
  "put_user_with_key =
     \<lparr>verb = PUT, path = [''api'', ''arma3-slotting'', ''5'', ''match'', ''9'', ''slot'', ''3'', ''user''],
      uid = None, x_api_key = Some ''secret'', params = Map.empty\<rparr>"

definition delete_match :: request where
  "delete_match =
     \<lparr>verb = DELETE, path = [''api'', ''arma3-slotting'', ''5'', ''match''],
      uid = Some 1, x_api_key = None, params = Map.empty\<rparr>"

definition post_match :: request where
  "post_match =
     \<lparr>verb = POST, path = [''api'', ''arma3-slotting'', ''5'', ''match''],
      uid = Some 1, x_api_key = None, params = Map.empty\<rparr>"

definition get_matches :: request where
  "get_matches =
     \<lparr>verb = GET, path = [''api'', ''arma3-slotting'', ''5''],
      uid = Some 1, x_api_key = None, params = Map.empty\<rparr>"

definition post_slotted_user_ids :: request where
  "post_slotted_user_ids =
     \<lparr>verb = POST, path = [''api'', ''arma3-slotting'', ''5'', ''slotted-user-ids''],
      uid = Some 1, x_api_key = None, params = Map.empty\<rparr>"

text \<open>The sample host with topic 5 titled with a date that no calendar has.\<close>

definition invalid_date_host :: host where
  "invalid_date_host = sample_host\<lparr>topic_getTitle := (\<lambda>t. Inr (Some ''Raid 2024-99-99 Night''))\<rparr>"

text \<open>
  Handlers answering in turn: the first that does not call \<open>next()\<close> decides, and
  \<open>Next\<close> is left when all of them call it.
\<close>

fun first_answer :: "outcome list \<Rightarrow> outcome" where
  "first_answer [] = Next"
| "first_answer (out # outs) = (case out of Next \<Rightarrow> first_answer outs | _ \<Rightarrow> out)"

text \<open>
  The gates that \<open>init\<close> registers on \<open>/:tid/*\<close> ahead of every other route of a path
  below a topic, in the order of their registration: those for every verb, then those
  for POST, PUT and DELETE.
\<close>

definition gates_ahead :: "config \<Rightarrow> host \<Rightarrow> request \<Rightarrow> outcome list" where
  "gates_ahead cfg h r =
     [requireTopic h r, restrictCategories cfg h r] @
     (if verb r \<in> {POST, PUT, DELETE}
      then [requireLoggedIn cfg r, restrictCategories cfg h r, requireEventInFuture h r]
      else [])"

section \<open>Properties of the pattern matcher\<close>

lemma cls_digit: "cls_found [Range CHR ''0'' CHR ''9''] c = is_digit c"
  by (auto simp: cls_found_def is_digit_def in_range_def canonicalize_def uncanonicalize_def)

lemma cls_alnum: "cls_found [Range CHR ''0'' CHR ''9'', Range CHR ''a'' CHR ''z''] c = (is_digit c \<or> is_letter c)"
  by (auto simp: cls_found_def is_digit_def is_letter_def in_range_def canonicalize_def uncanonicalize_def)

lemma canon_dash: "(canonicalize x = canonicalize CHR ''-'') = (x = CHR ''-'')"
  by (auto simp: in_range_def canonicalize_def dest!: arg_cong[where f="of_char :: char \<Rightarrow> nat"])

lemma canon_space: "(canonicalize x = canonicalize CHR '' '') = (x = CHR '' '')"
  by (auto simp: in_range_def canonicalize_def dest!: arg_cong[where f="of_char :: char \<Rightarrow> nat"])

lemma ms_rests: "snd ` set (ms r k s) = {rest. \<exists>w \<in> lang r. s = w @ rest}"
proof (induction r arbitrary: k s)
  case (Chr c)
  then show ?case by (cases s) auto
next
  case (Cls neg as)
  then show ?case by (cases s) auto
next
  case (Seq a b)
  have "snd ` set (ms (Seq a b) k s) = (\<Union>(k', s') \<in> set (ms a k s). snd ` set (ms b k' s'))"
    by (auto simp: image_iff split: prod.splits) 
  also have "\<dots> = (\<Union>(k', s') \<in> set (ms a k s). {rest. \<exists>w \<in> lang b. s' = w @ rest})"
    using Seq.IH(2) by simp
  also have "\<dots> = (\<Union>s' \<in> snd ` set (ms a k s). {rest. \<exists>w \<in> lang b. s' = w @ rest})"
    by force
  also have "\<dots> = {rest. \<exists>w \<in> lang (Seq a b). s = w @ rest}"
    unfolding Seq.IH(1) by fastforce
  finally show ?case .
next
  case (Group i r)
  have "snd ` set (ms (Group i r) k s) = snd ` set (ms r k s)"
    by (force simp: image_iff split: prod.splits)
  then show ?case using Group.IH by simp
next
  case (Opt r)
  then show ?case by (auto simp: image_Un)
qed

lemma ms_nonempty: "(ms r k s \<noteq> []) = (\<exists>w rest. w \<in> lang r \<and> s = w @ rest)"
proof -
  have "(ms r k s \<noteq> []) = (snd ` set (ms r k s) \<noteq> {})" by simp
  also have "\<dots> = (\<exists>w rest. w \<in> lang r \<and> s = w @ rest)"
    unfolding ms_rests by auto
  finally show ?thesis .
qed

lemma match_at_None: "(match_at r s = None) = (ms r Map.empty s = [])"
  by (auto simp: match_at_def split: list.splits)

lemma js_match_Some: "(js_match r s \<noteq> None) = (\<exists>pre w post. w \<in> lang r \<and> s = pre @ w @ post)"
proof (induction s)
  case Nil
  then show ?case using ms_nonempty[of r Map.empty "[]"] by (auto simp: match_at_None)
next
  case (Cons x xs)
  have "(js_match r (x # xs) \<noteq> None) = (ms r Map.empty (x # xs) \<noteq> [] \<or> js_match r xs \<noteq> None)"
    using match_at_None[of r "x # xs"] by (auto split: option.splits)
  also have "\<dots> = ((\<exists>w post. w \<in> lang r \<and> x # xs = w @ post) \<or> (\<exists>pre w post. w \<in> lang r \<and> xs = pre @ w @ post))"
    unfolding ms_nonempty Cons.IH by simp
  also have "\<dots> = (\<exists>pre w post. w \<in> lang r \<and> x # xs = pre @ w @ post)"
  proof
    assume "(\<exists>w post. w \<in> lang r \<and> x # xs = w @ post) \<or> (\<exists>pre w post. w \<in> lang r \<and> xs = pre @ w @ post)"
    then show "\<exists>pre w post. w \<in> lang r \<and> x # xs = pre @ w @ post"
    proof
      assume "\<exists>w post. w \<in> lang r \<and> x # xs = w @ post"
      then obtain w post where "w \<in> lang r" "x # xs = [] @ w @ post" by auto
      then show ?thesis by blast
    next
      assume "\<exists>pre w post. w \<in> lang r \<and> xs = pre @ w @ post"
      then obtain pre w post where "w \<in> lang r" "x # xs = (x # pre) @ w @ post" by auto
      then show ?thesis by blast
    qed
  next
    assume "\<exists>pre w post. w \<in> lang r \<and> x # xs = pre @ w @ post"
    then obtain pre w post where w: "w \<in> lang r" and e: "x # xs = pre @ w @ post" by blast
    show "(\<exists>w post. w \<in> lang r \<and> x # xs = w @ post) \<or> (\<exists>pre w post. w \<in> lang r \<and> xs = pre @ w @ post)"
    proof (cases pre)
      case Nil
      then show ?thesis using w e by auto
    next
      case (Cons p ps)
      then have "xs = ps @ w @ post" using e by simp
      then show ?thesis using w by blast
    qed
  qed
  finally show ?case .
qed

lemma ms_word:
  assumes "(k', rest) \<in> set (ms r k s)"
  shows "\<exists>w \<in> lang r. s = w @ rest"
proof -
  have "rest \<in> snd ` set (ms r k s)" using assms by force
  then show ?thesis unfolding ms_rests by simp
qed

lemma is_date_text_iff:
  "is_date_text d = (\<exists>y1 y2 y3 y4 m1 m2 d1 d2.
      d = [y1, y2, y3, y4, CHR ''-'', m1, m2, CHR ''-'', d1, d2] \<and>
      is_digit y1 \<and> is_digit y2 \<and> is_digit y3 \<and> is_digit y4 \<and>
      is_digit m1 \<and> is_digit m2 \<and> is_digit d1 \<and> is_digit d2)"
  unfolding is_date_text_def by (auto split: list.splits)

lemma times_4: "times 4 r = [r, r, r, r]" and times_2: "times 2 r = [r, r]"
  by (simp_all add: times_def numeral_eq_Suc)

lemma lang_digit: "lang digit = {[x] | x. is_digit x}"
  by (simp add: digit_def cls_digit)

lemma lang_separator: "lang separator = {[x] | x. \<not> is_digit x \<and> \<not> is_letter x}"
  by (simp add: separator_def cls_alnum)

lemma lang_dash: "lang (Chr CHR ''-'') = {[CHR ''-'']}"
  by (auto simp: canon_dash)

lemma in_lang_Seq_single:
  assumes "\<And>u. (u \<in> lang a) = (\<exists>x. u = [x] \<and> P x)"
  shows "(w \<in> lang (Seq a b)) = (case w of [] \<Rightarrow> False | x # v \<Rightarrow> P x \<and> v \<in> lang b)"
proof (cases w)
  case Nil
  then show ?thesis by (auto simp: assms)
next
  case (Cons x v)
  have "(x # v \<in> lang (Seq a b)) = (P x \<and> v \<in> lang b)"
  proof
    assume "x # v \<in> lang (Seq a b)"
    then obtain u v' where "x # v = u @ v'" "u \<in> lang a" "v' \<in> lang b" by auto
    then show "P x \<and> v \<in> lang b" by (auto simp: assms)
  next
    assume "P x \<and> v \<in> lang b"
    then have "[x] \<in> lang a" "v \<in> lang b" "x # v = [x] @ v" by (auto simp: assms)
    then show "x # v \<in> lang (Seq a b)" unfolding lang.simps by blast
  qed
  then show ?thesis using Cons by simp
qed

lemma in_lang_Seq_digit:
  "(w \<in> lang (Seq digit b)) = (case w of [] \<Rightarrow> False | x # v \<Rightarrow> is_digit x \<and> v \<in> lang b)"
  by (rule in_lang_Seq_single) (auto simp: lang_digit)

lemma in_lang_Seq_dash:
  "(w \<in> lang (Seq (Chr CHR ''-'') b)) = (case w of [] \<Rightarrow> False | x # v \<Rightarrow> x = CHR ''-'' \<and> v \<in> lang b)"
  by (rule in_lang_Seq_single) (auto simp: canon_dash)

lemma in_lang_digit: "(w \<in> lang digit) = (case w of [x] \<Rightarrow> is_digit x | _ \<Rightarrow> False)"
  by (auto simp: lang_digit split: list.splits)

lemma lang_date_group: "(d \<in> lang date_group) = is_date_text d"
  unfolding date_group_def times_4 times_2 is_date_text_def
  by (simp only: append.simps seqs.simps lang.simps(4) in_lang_Seq_digit in_lang_Seq_dash in_lang_digit)
     (simp split: list.splits)

lemma lang_topicIsEvent_rx:
  "lang topicIsEvent_rx = {d @ [x] | d x. is_date_text d \<and> \<not> is_digit x \<and> \<not> is_letter x}"
  unfolding topicIsEvent_rx_def by (auto simp: lang_date_group lang_separator)

section \<open>The event date parser\<close>

text \<open>
  C3. A title is classified as an event exactly when its trimmed text contains a
  YYYY-MM-DD shaped date that is at once followed by a character that is neither a
  digit nor a letter of either case.
\<close>

theorem topicIsEvent_iff_spec: "(topicIsEvent title \<noteq> None) = spec_isEvent title"
proof -
  have "(topicIsEvent title \<noteq> None) =
        (\<exists>pre w post. (\<exists>d x. w = d @ [x] \<and> is_date_text d \<and> \<not> is_digit x \<and> \<not> is_letter x) \<and>
           trim title = pre @ w @ post)"
    unfolding topicIsEvent_def js_match_Some lang_topicIsEvent_rx by simp
  also have "\<dots> = spec_isEvent title"
    unfolding spec_isEvent_def
  proof
    assume "\<exists>pre w post. (\<exists>d x. w = d @ [x] \<and> is_date_text d \<and> \<not> is_digit x \<and> \<not> is_letter x) \<and>
           trim title = pre @ w @ post"
    then obtain pre d x post where "trim title = pre @ (d @ [x]) @ post" "is_date_text d"
      "\<not> is_digit x" "\<not> is_letter x" by blast
    then have "trim title = pre @ d @ x # post \<and> is_date_text d \<and> \<not> is_digit x \<and> \<not> is_letter x" by simp
    then show "\<exists>pre d sep post. trim title = pre @ d @ sep # post \<and> is_date_text d \<and>
        \<not> is_digit sep \<and> \<not> is_letter sep" by blast
  next
    assume "\<exists>pre d sep post. trim title = pre @ d @ sep # post \<and> is_date_text d \<and>
        \<not> is_digit sep \<and> \<not> is_letter sep"
    then obtain pre d x post where "trim title = pre @ d @ x # post" "is_date_text d"
      "\<not> is_digit x" "\<not> is_letter x" by blast
    then have "(\<exists>d' x'. d @ [x] = d' @ [x'] \<and> is_date_text d' \<and> \<not> is_digit x' \<and> \<not> is_letter x') \<and>
       trim title = pre @ (d @ [x]) @ post" by auto
    then show "\<exists>pre w post. (\<exists>d x. w = d @ [x] \<and> is_date_text d \<and> \<not> is_digit x \<and> \<not> is_letter x) \<and>
           trim title = pre @ w @ post" by blast
  qed
  finally show ?thesis .
qed


theorem topicIsEvent_iff_spec_witness:
  "topicIsEvent ''  Raid 2024-05-01 Night '' \<noteq> None \<and> spec_isEvent ''  Raid 2024-05-01 Night '' \<and>
   topicIsEvent ''Raid 2024-05-01'' = None \<and> \<not> spec_isEvent ''Raid 2024-05-01''"
proof -
  have a: "topicIsEvent ''  Raid 2024-05-01 Night '' \<noteq> None" by code_simp
  have b: "topicIsEvent ''Raid 2024-05-01'' = None" by code_simp
  show ?thesis
    using a b topicIsEvent_iff_spec [of "''  Raid 2024-05-01 Night ''"]
      topicIsEvent_iff_spec [of "''Raid 2024-05-01''"]
    by simp
qed

lemma match_at_word:
  assumes "match_at r s = Some (whole, k)"
  shows "whole \<in> lang r"
proof -
  from assms obtain rest ys where m: "ms r Map.empty s = (k, rest) # ys"
    and w: "whole = take (length s - length rest) s"
    by (auto simp: match_at_def split: list.splits prod.splits)
  then have "(k, rest) \<in> set (ms r Map.empty s)" by simp
  then obtain v where "v \<in> lang r" "s = v @ rest" using ms_word by blast
  then show ?thesis using w by simp
qed

lemma js_match_word: "js_match r s = Some (whole, k) \<Longrightarrow> whole \<in> lang r"
proof (induction s)
  case Nil
  then show ?case using match_at_word by simp
next
  case (Cons x xs)
  then show ?case using match_at_word by (auto split: option.splits)
qed

lemma cls_time: "cls_found [Range CHR ''0'' CHR ''9'', Single CHR '':'', Single CHR ''+'', Single CHR '' ''] c
    = (is_digit c \<or> c = CHR '':'' \<or> c = CHR ''+'' \<or> c = CHR '' '')"
  by (auto simp: cls_found_def is_digit_def in_range_def canonicalize_def uncanonicalize_def
      dest!: arg_cong[where f="of_char :: char \<Rightarrow> nat"])

lemma space_is_separator: "\<not> is_digit CHR '' '' \<and> \<not> is_letter CHR '' ''"
  by (simp add: is_digit_def is_letter_def in_range_def)

lemma lang_secondsToEvent_rx:
  "lang secondsToEvent_rx =
     {d @ g @ [x] | d g x. is_date_text d \<and>
        (g = [] \<or> (\<exists>c. g = [CHR '' '', c] \<and> (is_digit c \<or> c = CHR '':'' \<or> c = CHR ''+'' \<or> c = CHR '' ''))) \<and>
        \<not> is_digit x \<and> \<not> is_letter x}"
  (is "?L = ?R")
proof -
  have g: "lang (Opt (Group 2 (Seq (Chr CHR '' '')
                (Cls False [Range CHR ''0'' CHR ''9'', Single CHR '':'', Single CHR ''+'', Single CHR '' '']))))
        = {g. g = [] \<or> (\<exists>c. g = [CHR '' '', c] \<and> (is_digit c \<or> c = CHR '':'' \<or> c = CHR ''+'' \<or> c = CHR '' ''))}"
    by (auto simp: canon_space cls_time)
  have "?L = {d @ v | d v. is_date_text d \<and> v \<in> {g @ [x] | g x.
      (g = [] \<or> (\<exists>c. g = [CHR '' '', c] \<and> (is_digit c \<or> c = CHR '':'' \<or> c = CHR ''+'' \<or> c = CHR '' ''))) \<and>
        \<not> is_digit x \<and> \<not> is_letter x}}"
    unfolding secondsToEvent_rx_def lang.simps(3) g lang_separator
    by (simp add: lang_date_group) blast
  also have "\<dots> = ?R" by blast
  finally show ?thesis .
qed

lemma same_titles_match:
  "(js_match secondsToEvent_rx s = None) = (js_match topicIsEvent_rx s = None)"
proof -
  have "(\<exists>pre w post. w \<in> lang secondsToEvent_rx \<and> s = pre @ w @ post) =
        (\<exists>pre w post. w \<in> lang topicIsEvent_rx \<and> s = pre @ w @ post)"
  proof
    assume "\<exists>pre w post. w \<in> lang secondsToEvent_rx \<and> s = pre @ w @ post"
    then obtain pre d g x post where s: "s = pre @ (d @ g @ [x]) @ post" and d: "is_date_text d"
      and g: "g = [] \<or> (\<exists>c. g = [CHR '' '', c])" and x: "\<not> is_digit x" "\<not> is_letter x"
      unfolding lang_secondsToEvent_rx by blast
    from g show "\<exists>pre w post. w \<in> lang topicIsEvent_rx \<and> s = pre @ w @ post"
    proof
      assume "g = []"
      then have "d @ [x] \<in> lang topicIsEvent_rx" "s = pre @ (d @ [x]) @ post"
        using s d x unfolding lang_topicIsEvent_rx by auto
      then show ?thesis by blast
    next
      assume "\<exists>c. g = [CHR '' '', c]"
      then obtain c where "g = [CHR '' '', c]" by blast
      then have "d @ [CHR '' ''] \<in> lang topicIsEvent_rx" "s = pre @ (d @ [CHR '' '']) @ (c # x # post)"
        using s d space_is_separator unfolding lang_topicIsEvent_rx by auto
      then show ?thesis by blast
    qed
  next
    assume "\<exists>pre w post. w \<in> lang topicIsEvent_rx \<and> s = pre @ w @ post"
    then obtain pre d x post where s: "s = pre @ (d @ [x]) @ post" and d: "is_date_text d"
      and x: "\<not> is_digit x" "\<not> is_letter x"
      unfolding lang_topicIsEvent_rx by blast
    then have "d @ [] @ [x] \<in> lang secondsToEvent_rx"
      unfolding lang_secondsToEvent_rx by blast
    then show "\<exists>pre w post. w \<in> lang secondsToEvent_rx \<and> s = pre @ w @ post"
      using s by (metis append_Nil)
  qed
  then have "(js_match secondsToEvent_rx s \<noteq> None) = (js_match topicIsEvent_rx s \<noteq> None)"
    unfolding js_match_Some .
  then show ?thesis by blast
qed

lemma secondsToEvent_rx_nonempty: "js_match secondsToEvent_rx s = Some (whole, k) \<Longrightarrow> whole \<noteq> []"
  using js_match_word[of secondsToEvent_rx s whole k] unfolding lang_secondsToEvent_rx by auto

text \<open>
  C4. A title that gives a time after the date, as in "Raid 2024-05-01 20:00 Night":
  the optional group of the pattern takes a space and one character and must be
  followed by a character that is neither digit nor letter, so it takes no part when
  the hour has two digits. The text handed to \<open>Date\<close> is then the date and the space
  alone, and the day is added: the result is that of the title without the time. At
  noon of that day on a host in UTC the event is reported 43200 seconds away, the
  following midnight, not the 28800 seconds to 20:00.
\<close>

theorem secondsToEvent_drops_time:
  "secondsToEvent D now ''Raid 2024-05-01 20:00 Night'' =
     seconds_until (setTime (plus_ms (D ''2024-05-01 '') (86400 * 1000))) now \<and>
   secondsToEvent D now ''Raid 2024-05-01 20:00 Night'' = secondsToEvent D now ''Raid 2024-05-01 Night'' \<and>
   secondsToEvent utcDate 1714564800000 ''Raid 2024-05-01 20:00 Night'' = Num 43200"
proof -
  have a: "secondsToEvent D now ''Raid 2024-05-01 20:00 Night'' =
     seconds_until (setTime (plus_ms (D ''2024-05-01 '') (86400 * 1000))) now" by code_simp
  have b: "secondsToEvent D now ''Raid 2024-05-01 Night'' =
     seconds_until (setTime (plus_ms (D ''2024-05-01 '') (86400 * 1000))) now" by code_simp
  have c: "secondsToEvent utcDate 1714564800000 ''Raid 2024-05-01 20:00 Night'' = Num 43200" by code_simp
  show ?thesis using a b c by simp
qed

text \<open>
  The title without a time, from the specification's example: at midnight of
  2024-05-01 on a host in UTC the event is a day away.
\<close>

lemma bare_date_is_next_midnight:
  "secondsToEvent utcDate (days_from_civil 2024 5 1 * 86400000) ''Raid 2024-05-01 Night'' = Num 86400"
  by code_simp

text \<open>
  A title that is not an event gets the sentinel: the pattern of \<open>secondsToEvent\<close>
  matches no title that the pattern of \<open>topicIsEvent\<close> does not match.
\<close>

lemma secondsToEvent_not_event:
  "topicIsEvent title = None \<Longrightarrow> secondsToEvent D now title = Num (- 1)"
  using same_titles_match[of "trim title"] by (simp add: topicIsEvent_def secondsToEvent_def)

lemma secondsToEvent_event_matches:
  "topicIsEvent title \<noteq> None \<Longrightarrow>
   \<exists>whole groups. js_match secondsToEvent_rx (trim title) = Some (whole, groups) \<and> whole \<noteq> []"
proof -
  assume "topicIsEvent title \<noteq> None"
  then have "js_match secondsToEvent_rx (trim title) \<noteq> None"
    using same_titles_match[of "trim title"] by (simp add: topicIsEvent_def)
  then obtain whole k where m: "js_match secondsToEvent_rx (trim title) = Some (whole, k)" by auto
  then have "whole \<noteq> []" by (rule secondsToEvent_rx_nonempty)
  then show ?thesis using m by blast
qed

text \<open>
  C5. The title "Raid 2024-99-99 Night" has the shape of an event and a date that
  cannot be parsed. The only guard of \<open>secondsToEvent\<close> is on the match of the
  pattern, so the invalid \<open>Date\<close> of the matched text goes on into the arithmetic: for
  every \<open>Date\<close> constructor the result is that of the text "2024-99-99 " moved on by a
  day, and with a constructor that rejects the text it is \<open>NaN\<close>, not the sentinel -1.
  \<open>NaN\<close> is not below 0, so \<open>requireEventInFuture\<close> lets a request on such a topic
  pass, and a POST of a match reaches its endpoint.
\<close>

theorem secondsToEvent_invalid_date:
  "topicIsEvent ''Raid 2024-99-99 Night'' \<noteq> None \<and>
   secondsToEvent D now ''Raid 2024-99-99 Night'' =
     seconds_until (setTime (plus_ms (D ''2024-99-99 '') (86400 * 1000))) now \<and>
   utcDate ''2024-99-99 '' = None \<and>
   secondsToEvent utcDate 1714564800000 ''Raid 2024-99-99 Night'' = NaN \<and>
   secondsToEvent utcDate 1714564800000 ''Raid 2024-99-99 Night'' \<noteq> Num (- 1) \<and>
   requireEventInFuture invalid_date_host (post_match\<lparr>params := [''tid'' \<mapsto> ''5'']\<rparr>) = Next \<and>
   handle sample_config invalid_date_host post_match = Respond 200 (JObj [])"
proof -
  have a: "topicIsEvent ''Raid 2024-99-99 Night'' \<noteq> None" by code_simp
  have b: "secondsToEvent D now ''Raid 2024-99-99 Night'' =
     seconds_until (setTime (plus_ms (D ''2024-99-99 '') (86400 * 1000))) now" by code_simp
  have c: "utcDate ''2024-99-99 '' = None" by code_simp
  have d: "secondsToEvent utcDate 1714564800000 ''Raid 2024-99-99 Night'' = NaN" by code_simp
  have e: "requireEventInFuture invalid_date_host (post_match\<lparr>params := [''tid'' \<mapsto> ''5'']\<rparr>) = Next"
    by code_simp
  have f: "handle sample_config invalid_date_host post_match = Respond 200 (JObj [])" by code_simp
  show ?thesis using a b c d e f by simp
qed

section \<open>The plugin hooks\<close>

text \<open>
  C1. An attendance change with a probability of at least 1 removes nothing, notifies
  nobody and calls the callback once with a null error: the store and the
  notifications are as before, whatever \<open>unattendUser\<close> would do.
\<close>

theorem catchAttendanceChange_certain:
  assumes "num_ge (probability ev) (Num 1)"
  shows "catchAttendanceChange unattendUser ev st = st\<lparr>called_back := called_back st @ [None]\<rparr>"
  using assms by (simp add: catchAttendanceChange_def callback_def)

theorem catchAttendanceChange_certain_witness:
  "num_ge (probability \<lparr>ac_tid = 7, ac_uid = 3, probability = Num 1\<rparr>) (Num 1) \<and>
   catchAttendanceChange removeUser \<lparr>ac_tid = 7, ac_uid = 3, probability = Num 1\<rparr>
       \<lparr>store = [(1, 3), (2, 4)], notified = [], called_back = []\<rparr>
     = \<lparr>store = [(1, 3), (2, 4)], notified = [], called_back = [None]\<rparr>"
proof -
  have h: "num_ge (probability \<lparr>ac_tid = 7, ac_uid = 3, probability = Num 1\<rparr>) (Num 1)"
    by (simp add: num_ge_def)
  show ?thesis
    using h catchAttendanceChange_certain [OF h, of removeUser
        "\<lparr>store = [(1, 3), (2, 4)], notified = [], called_back = []\<rparr>"]
    by simp
qed

text \<open>
  C2. An attendance change with a probability below 1 runs \<open>unattendUser\<close>. When it
  settles with a count, one notification with the topic, the user and the count is
  sent if the count is positive and none otherwise, and the callback gets a null
  error; when it fails, nothing is sent and the callback gets that error, once.
\<close>

theorem catchAttendanceChange_unslot:
  assumes "num_lt (probability ev) (Num 1)"
  shows "catchAttendanceChange unattendUser ev st =
     (case unattendUser (ac_tid ev) (ac_uid ev) (store st) of
        (Fulfilled n, db) \<Rightarrow>
          st\<lparr>store := db,
             notified := notified st @ (if 0 < n then [(ac_tid ev, ac_uid ev, n)] else []),
             called_back := called_back st @ [None]\<rparr>
      | (Rejected e, db) \<Rightarrow> st\<lparr>store := db, called_back := called_back st @ [Some e]\<rparr>)"
proof -
  have "\<not> num_ge (probability ev) (Num 1)"
    using assms by (auto simp: num_lt_def num_ge_def split: number.splits)
  then show ?thesis
    by (auto simp: catchAttendanceChange_def callback_def notifyAutoUnslotted_def
        split: prod.splits settled.splits)
qed

theorem catchAttendanceChange_unslot_witness:
  "num_lt (probability \<lparr>ac_tid = 7, ac_uid = 3, probability = Num (1 / 2)\<rparr>) (Num 1) \<and>
   catchAttendanceChange removeUser \<lparr>ac_tid = 7, ac_uid = 3, probability = Num (1 / 2)\<rparr>
       \<lparr>store = [(1, 3), (2, 4), (5, 3)], notified = [], called_back = []\<rparr>
     = \<lparr>store = [(2, 4)], notified = [(7, 3, 2)], called_back = [None]\<rparr>"
proof -
  have h: "num_lt (probability \<lparr>ac_tid = 7, ac_uid = 3, probability = Num (1 / 2)\<rparr>) (Num 1)"
    by (simp add: num_lt_def)
  show ?thesis
    using h catchAttendanceChange_unslot [OF h, of removeUser
        "\<lparr>store = [(1, 3), (2, 4), (5, 3)], notified = [], called_back = []\<rparr>"]
    by (simp add: removeUser_def)
qed

text \<open>
  C10. When the repository delivers the slotted user ids, \<open>filterAttendanceSlotted\<close>
  stores the list in \<open>params.userIds\<close> and calls the callback with a null error and
  the same list; when the repository fails, it calls the callback with the error and
  an empty list and leaves the parameter object as it was.
\<close>

theorem filterAttendanceSlotted_result:
  "(getSlottedUserIds (sp_tid ev) = Fulfilled ids \<longrightarrow>
      filterAttendanceSlotted getSlottedUserIds ev = (ev\<lparr>userIds := Some ids\<rparr>, [(None, ids)])) \<and>
   (getSlottedUserIds (sp_tid ev) = Rejected e \<longrightarrow>
      filterAttendanceSlotted getSlottedUserIds ev = (ev, [(Some e, [])]))"
  by (simp add: filterAttendanceSlotted_def)

theorem filterAttendanceSlotted_result_witness:
  "filterAttendanceSlotted (\<lambda>t. if t = 7 then Fulfilled [3, 4] else Rejected \<lparr>message = ''no topic'', enumerable = []\<rparr>)
       \<lparr>sp_tid = 7, userIds = None\<rparr>
     = (\<lparr>sp_tid = 7, userIds = Some [3, 4]\<rparr>, [(None, [3, 4])]) \<and>
   filterAttendanceSlotted (\<lambda>t. if t = 7 then Fulfilled [3, 4] else Rejected \<lparr>message = ''no topic'', enumerable = []\<rparr>)
       \<lparr>sp_tid = 8, userIds = None\<rparr>
     = (\<lparr>sp_tid = 8, userIds = None\<rparr>, [(Some \<lparr>message = ''no topic'', enumerable = []\<rparr>, [])])"
  using filterAttendanceSlotted_result [of "\<lambda>t. if t = 7 then Fulfilled [3, 4] else Rejected \<lparr>message = ''no topic'', enumerable = []\<rparr>"
      "\<lparr>sp_tid = 7, userIds = None\<rparr>" "[3, 4]" "\<lparr>message = ''no topic'', enumerable = []\<rparr>"]
    filterAttendanceSlotted_result [of "\<lambda>t. if t = 7 then Fulfilled [3, 4] else Rejected \<lparr>message = ''no topic'', enumerable = []\<rparr>"
      "\<lparr>sp_tid = 8, userIds = None\<rparr>" "[3, 4]" "\<lparr>message = ''no topic'', enumerable = []\<rparr>"]
  by simp

section \<open>The access gates\<close>

lemma truthy_text_Some: "truthy_text (Some k) = (k \<noteq> [])"
  by (simp add: truthy_text_def falsy_text_def)

lemma sample_apiKey: "apiKey sample_config = Some ''secret''"
  by (simp add: sample_config_def setApiKey_def)

text \<open>
  C6, as the claim states it, fails for \<open>requireCanWriteAttendance\<close>: it reads the
  header X-Api-Key as a share id, never compares it with the configured key, and
  refuses the request when the share store has no such share. So does the router for
  a PUT of a slot's user that presents the key.
\<close>

theorem api_key_is_no_share:
  "apiKey sample_config = Some ''secret'' \<and> x_api_key put_user_with_key = Some ''secret'' \<and>
   requireCanWriteAttendance sample_host
       (put_user_with_key\<lparr>params := [''tid'' \<mapsto> ''5'', ''matchid'' \<mapsto> ''9'', ''slotid'' \<mapsto> ''3'']\<rparr>)
     = Respond 403 (msg ''Invalid share id'') \<and>
   handle sample_config sample_host put_user_with_key = Respond 403 (msg ''Invalid share id'')"
proof -
  have a: "requireCanWriteAttendance sample_host
       (put_user_with_key\<lparr>params := [''tid'' \<mapsto> ''5'', ''matchid'' \<mapsto> ''9'', ''slotid'' \<mapsto> ''3'']\<rparr>)
     = Respond 403 (msg ''Invalid share id'')"
    by (simp add: requireCanWriteAttendance_def put_user_with_key_def sample_host_def truthy_text_Some)
  have b: "handle sample_config sample_host put_user_with_key = Respond 403 (msg ''Invalid share id'')"
    by code_simp
  show ?thesis using a b by (simp add: sample_apiKey put_user_with_key_def)
qed

text \<open>
  C6, amended. A request that presents the configured, non-empty API key passes
  \<open>requireLoggedIn\<close> and \<open>requireAdminOrThreadOwner\<close>, whoever sends it and whatever the
  edit permission says. \<open>requireCanWriteAttendance\<close> takes the same header for a share
  id: it admits the request when the share store has a share of that id for the topic
  and match, and answers 403 otherwise.
\<close>

theorem api_key_bypass:
  assumes "apiKey cfg = Some k" and "k \<noteq> []" and "x_api_key req = Some k"
  shows "requireLoggedIn cfg req = Next \<and>
         requireAdminOrThreadOwner cfg h req = Next \<and>
         requireCanWriteAttendance h req =
           (case share_getFromDb h (params req ''tid'') (params req ''matchid'') k of
              Inr (Some share) \<Rightarrow> Next
            | _ \<Rightarrow> Respond 403 (msg ''Invalid share id''))"
  using assms
  by (simp add: requireLoggedIn_def requireAdminOrThreadOwner_def requireCanWriteAttendance_def
      truthy_text_Some)

theorem api_key_bypass_witness:
  "apiKey sample_config = Some ''secret'' \<and> ''secret'' \<noteq> [] \<and>
   x_api_key put_user_with_key = Some ''secret'' \<and>
   requireLoggedIn sample_config put_user_with_key = Next \<and>
   requireAdminOrThreadOwner sample_config sample_host put_user_with_key = Next \<and>
   requireCanWriteAttendance sample_host put_user_with_key = Respond 403 (msg ''Invalid share id'')"
proof -
  have k: "apiKey sample_config = Some ''secret''" "''secret'' \<noteq> []"
    "x_api_key put_user_with_key = Some ''secret''"
    by (simp_all add: sample_apiKey put_user_with_key_def)
  show ?thesis
    using k api_key_bypass [OF k, of sample_host]
    by (simp add: sample_host_def put_user_with_key_def)
qed

text \<open>
  C7, as the claim states it, fails: the probe answers 500 when the edit-permission
  lookup reports an error, and 400 when a logged-in caller's topic id is not a number.
\<close>

theorem isAdminOrThreadOwner_fails:
  "isAdminOrThreadOwner sample_config failing_host probe_request = Respond 500 (JObj []) \<and>
   isAdminOrThreadOwner sample_config sample_host (probe_request\<lparr>params := [''tid'' \<mapsto> ''abc'']\<rparr>)
     = Respond 400 (JObj [(''error'', JStr ''must provide topic id'')])"
proof -
  have a: "isAdminOrThreadOwner sample_config failing_host probe_request = Respond 500 (JObj [])"
    by code_simp
  have b: "isAdminOrThreadOwner sample_config sample_host (probe_request\<lparr>params := [''tid'' \<mapsto> ''abc'']\<rparr>)
     = Respond 400 (JObj [(''error'', JStr ''must provide topic id'')])"
    by code_simp
  show ?thesis using a b by simp
qed

text \<open>
  C7, amended. The probe always ends the request itself, with status 200, 400 or 500
  and never 403. It answers 400 exactly when a logged-in caller without an X-Api-Key
  header gives no usable topic id, and 500 exactly when, for such a caller with a
  topic id, the edit-permission lookup or the group lookup reports an error. When it
  answers 200 the body has a boolean \<open>result\<close>; if the request has no X-Api-Key header,
  or the header is the configured key, \<open>result\<close> is true exactly when
  \<open>requireAdminOrThreadOwner\<close> admits the same request.
\<close>

theorem isAdminOrThreadOwner_answers:
  fixes cfg h req
  defines "answer \<equiv> isAdminOrThreadOwner cfg h req"
    and "tid \<equiv> parseInt10 (params req ''tid'')"
  shows "(status_of answer = Some 200 \<or> status_of answer = Some 400 \<or> status_of answer = Some 500) \<and>
    (status_of answer = Some 400) =
       (\<not> truthy_text (x_api_key req) \<and> truthy_uid (uid req) \<and> \<not> truthy_number tid) \<and>
    (status_of answer = Some 500) =
       (\<not> truthy_text (x_api_key req) \<and> truthy_uid (uid req) \<and> truthy_number tid \<and>
        (isl (topic_isAllowedToEdit h (uid req) (the tid)) \<or> isl (user_getGroups h [uid req]))) \<and>
    (status_of answer = Some 200 \<longrightarrow>
       (\<exists>b. field_of ''result'' answer = Some (JBool b) \<and>
            (\<not> truthy_text (x_api_key req) \<or> x_api_key req = apiKey cfg \<longrightarrow>
               b = (requireAdminOrThreadOwner cfg h req = Next))))"
  unfolding answer_def tid_def
  by (auto simp: isAdminOrThreadOwner_def requireAdminOrThreadOwner_def status_of_def field_of_def
      Let_def split: sum.splits option.splits)

theorem isAdminOrThreadOwner_answers_witness:
  "isAdminOrThreadOwner sample_config sample_host probe_request
     = Respond 200 (JObj [(''groups'', JArr [JStr ''administrators'']), (''result'', JBool True)]) \<and>
   requireAdminOrThreadOwner sample_config sample_host probe_request = Next"
proof -
  have a: "isAdminOrThreadOwner sample_config sample_host probe_request
     = Respond 200 (JObj [(''groups'', JArr [JStr ''administrators'']), (''result'', JBool True)])"
    by code_simp
  have b: "x_api_key probe_request = None" by (simp add: probe_request_def)
  show ?thesis
    using a isAdminOrThreadOwner_answers [of sample_config sample_host probe_request]
    by (simp add: a b status_of_def field_of_def truthy_text_def falsy_text_def)
qed

text \<open>
  The gates that answer an internal failure as the error helper shapes it: status 500
  and a body with the message of the error.
\<close>

lemma requireTopic_internal_failure:
  "topic_exists h (params req ''tid'') = Inl err \<Longrightarrow>
   requireTopic h req = Respond 500 (JObj [(''message'', JStr (message err))])"
  by (simp add: requireTopic_def exceptionToErrorResponse_def)

lemma restrictCategories_internal_failure:
  "allowedCategories cfg \<noteq> [] \<Longrightarrow> topic_getCategoryId h (params req ''tid'') = Inl err \<Longrightarrow>
   restrictCategories cfg h req = Respond 500 (JObj [(''message'', JStr (message err))])"
  by (simp add: restrictCategories_def exceptionToErrorResponse_def)

lemma requireEventInFuture_internal_failure:
  "topic_getTitle h (params req ''tid'') = Inl err \<Longrightarrow>
   requireEventInFuture h req = Respond 500 (JObj [(''message'', JStr (message err))])"
  by (simp add: requireEventInFuture_def exceptionToErrorResponse_def)

text \<open>
  C9. With a database that reports the error "db down", \<open>requireAdminOrThreadOwner\<close>
  answers 500 with the error object itself as the body, which is written as an empty
  object and is not the body with the message that \<open>exceptionToErrorResponse\<close> makes:
  so is a POST of a match answered. \<open>requireCanSeeAttendance\<close> throws the error and
  sends no response: so ends a GET of the matches of a topic.
\<close>

theorem internal_failure_without_message:
  "requireAdminOrThreadOwner sample_config failing_host (post_match\<lparr>params := [''tid'' \<mapsto> ''5'']\<rparr>)
     = Respond 500 (JObj []) \<and>
   exceptionToErrorResponse db_down = JObj [(''message'', JStr ''db down'')] \<and>
   handle sample_config failing_host post_match = Respond 500 (JObj []) \<and>
   handle sample_config failing_host post_match \<noteq> Respond 500 (exceptionToErrorResponse db_down) \<and>
   requireCanSeeAttendance failing_host (get_matches\<lparr>params := [''tid'' \<mapsto> ''5'']\<rparr>) = Throw db_down \<and>
   handle sample_config failing_host get_matches = Throw db_down"
proof -
  have a: "requireAdminOrThreadOwner sample_config failing_host (post_match\<lparr>params := [''tid'' \<mapsto> ''5'']\<rparr>)
     = Respond 500 (JObj [])"
    by code_simp
  have b: "exceptionToErrorResponse db_down = JObj [(''message'', JStr ''db down'')]"
    by (simp add: exceptionToErrorResponse_def db_down_def)
  have c: "handle sample_config failing_host post_match = Respond 500 (JObj [])"
    by code_simp
  have d: "requireCanSeeAttendance failing_host (get_matches\<lparr>params := [''tid'' \<mapsto> ''5'']\<rparr>) = Throw db_down"
    by (simp add: requireCanSeeAttendance_def failing_host_def)
  have e: "handle sample_config failing_host get_matches = Throw db_down"
    by code_simp
  show ?thesis using a b c d e by simp
qed

theorem internal_failure_without_message_witness:
  "status_of (handle sample_config failing_host post_match) = Some 500 \<and>
   field_of ''message'' (handle sample_config failing_host post_match) = None \<and>
   field_of ''message'' (Respond 500 (exceptionToErrorResponse db_down)) = Some (JStr ''db down'') \<and>
   status_of (handle sample_config failing_host get_matches) = None"
  using internal_failure_without_message by (simp add: status_of_def field_of_def)

section \<open>The router\<close>

lemma guarded_eq:
  "guarded =
     [(''/:tid/match'', [POST]),
      (''/:tid/match/:matchid'', [PUT, GET, DELETE]),
      (''/:tid/match/:matchid/share'', [GET, POST, DELETE]),
      (''/:tid/match/:matchid/slot'', [GET]),
      (''/:tid/match/:matchid/slot/:slotid/user'', [PUT, DELETE, GET]),
      (''/:tid/match/:matchid/slot/:slotid/reservation'', [PUT, DELETE, GET])]"
  by code_simp

lemma compiled:
  "compile (prefixApiPath ''/:tid'') = [Lit ''api'', Lit ''arma3-slotting'', Param ''tid'']"
  "compile (prefixApiPath ''/:tid/*'') = [Lit ''api'', Lit ''arma3-slotting'', Param ''tid'', Wildcard]"
  "compile (prefixApiPath ''/:tid/slotted-user-ids'') = [Lit ''api'', Lit ''arma3-slotting'', Param ''tid'', Lit ''slotted-user-ids'']"
  "compile (prefixApiPath ''/:tid/has-permissions'') = [Lit ''api'', Lit ''arma3-slotting'', Param ''tid'', Lit ''has-permissions'']"
  "compile (prefixApiPath ''/:tid/match'') = [Lit ''api'', Lit ''arma3-slotting'', Param ''tid'', Lit ''match'']"
  "compile (prefixApiPath ''/:tid/match/:matchid'') = [Lit ''api'', Lit ''arma3-slotting'', Param ''tid'', Lit ''match'', Param ''matchid'']"
  "compile (prefixApiPath ''/:tid/match/:matchid/share'') = [Lit ''api'', Lit ''arma3-slotting'', Param ''tid'', Lit ''match'', Param ''matchid'', Lit ''share'']"
  "compile (prefixApiPath ''/:tid/match/:matchid/share/:shareid'') = [Lit ''api'', Lit ''arma3-slotting'', Param ''tid'', Lit ''match'', Param ''matchid'', Lit ''share'', Param ''shareid'']"
  "compile (prefixApiPath ''/:tid/match/:matchid/slot'') = [Lit ''api'', Lit ''arma3-slotting'', Param ''tid'', Lit ''match'', Param ''matchid'', Lit ''slot'']"
  "compile (prefixApiPath ''/:tid/match/:matchid/slot/:slotid/user'') = [Lit ''api'', Lit ''arma3-slotting'', Param ''tid'', Lit ''match'', Param ''matchid'', Lit ''slot'', Param ''slotid'', Lit ''user'']"
  "compile (prefixApiPath ''/:tid/match/:matchid/slot/:slotid/reservation'') = [Lit ''api'', Lit ''arma3-slotting'', Param ''tid'', Lit ''match'', Param ''matchid'', Lit ''slot'', Param ''slotid'', Lit ''reservation'']"
  by code_simp+

lemma seg_match_Lit:
  "(seg_match (Lit l # ps) pth = Some m) = (\<exists>ss. pth = l # ss \<and> seg_match ps ss = Some m)"
  by (cases pth) auto

lemma seg_match_Param:
  "(seg_match (Param n # ps) pth = Some m) =
     (\<exists>s ss m'. pth = s # ss \<and> s \<noteq> [] \<and> seg_match ps ss = Some m' \<and> m = m'(n \<mapsto> s))"
  by (cases pth) (auto split: option.splits)

lemma seg_match_Nil: "(seg_match [] pth = Some m) = (pth = [] \<and> m = Map.empty)"
  by (cases pth) auto

text \<open>
  Routes registered one after the other are run one after the other, so the routes of
  \<open>init\<close> can be evaluated registration by registration.
\<close>

lemma dispatch_append:
  "dispatch cfg h (rs1 @ rs2) req =
     (case dispatch cfg h rs1 req of Next \<Rightarrow> dispatch cfg h rs2 req | out \<Rightarrow> out)"
proof (induction rs1)
  case Nil
  show ?case by simp
next
  case (Cons r rs1)
  obtain m pat cb where r: "r = (m, pat, cb)" by (cases r) auto
  show ?case unfolding r using Cons.IH by (simp split: option.splits outcome.splits)
qed

lemmas route_eval =
  getApiMethodGenerator_def compiled handles_def run_handler_def methodNotAllowed_def

lemma on_match:
  assumes p: "path req = [''api'', ''arma3-slotting'', t, ''match'']" and t: "t \<noteq> []"
    and v: "verb req \<noteq> POST"
  shows "handle cfg h req =
           first_answer (gates_ahead cfg h (req\<lparr>params := [''tid'' \<mapsto> t]\<rparr>) @
                         [Respond 405 (msg ''Method not allowed'')])"
  unfolding handle_def init_def Let_def concat.simps dispatch_append
  using v by (cases "verb req") (simp_all add: route_eval gates_ahead_def p t split: outcome.splits)

lemma on_matchid:
  assumes p: "path req = [''api'', ''arma3-slotting'', t, ''match'', m]" and t: "t \<noteq> []" "m \<noteq> []"
    and v: "verb req \<noteq> PUT" "verb req \<noteq> GET" "verb req \<noteq> DELETE" "verb req \<noteq> HEAD"
  shows "handle cfg h req =
           first_answer (gates_ahead cfg h (req\<lparr>params := [''tid'' \<mapsto> t]\<rparr>) @
                         [Respond 405 (msg ''Method not allowed'')])"
  unfolding handle_def init_def Let_def concat.simps dispatch_append
  using v by (cases "verb req") (simp_all add: route_eval gates_ahead_def p t split: outcome.splits)

lemma on_share:
  assumes p: "path req = [''api'', ''arma3-slotting'', t, ''match'', m, ''share'']" and t: "t \<noteq> []" "m \<noteq> []"
    and v: "verb req \<noteq> GET" "verb req \<noteq> POST" "verb req \<noteq> DELETE" "verb req \<noteq> HEAD"
  shows "handle cfg h req =
           first_answer (gates_ahead cfg h (req\<lparr>params := [''tid'' \<mapsto> t]\<rparr>) @
                         [Respond 405 (msg ''Method not allowed'')])"
  unfolding handle_def init_def Let_def concat.simps dispatch_append
  using v by (cases "verb req") (simp_all add: route_eval gates_ahead_def p t split: outcome.splits)

lemma on_slot:
  assumes p: "path req = [''api'', ''arma3-slotting'', t, ''match'', m, ''slot'']" and t: "t \<noteq> []" "m \<noteq> []"
    and v: "verb req \<noteq> GET" "verb req \<noteq> HEAD"
  shows "handle cfg h req =
           first_answer (gates_ahead cfg h (req\<lparr>params := [''tid'' \<mapsto> t]\<rparr>) @
                         [Respond 405 (msg ''Method not allowed'')])"
  unfolding handle_def init_def Let_def concat.simps dispatch_append
  using v by (cases "verb req") (simp_all add: route_eval gates_ahead_def p t split: outcome.splits)

lemma on_user:
  assumes p: "path req = [''api'', ''arma3-slotting'', t, ''match'', m, ''slot'', s, ''user'']" and t: "t \<noteq> []" "m \<noteq> []" "s \<noteq> []"
    and v: "verb req \<noteq> PUT" "verb req \<noteq> GET" "verb req \<noteq> DELETE" "verb req \<noteq> HEAD"
  shows "handle cfg h req =
           first_answer (gates_ahead cfg h (req\<lparr>params := [''tid'' \<mapsto> t]\<rparr>) @
                         [Respond 405 (msg ''Method not allowed'')])"
  unfolding handle_def init_def Let_def concat.simps dispatch_append
  using v by (cases "verb req") (simp_all add: route_eval gates_ahead_def p t split: outcome.splits)

lemma on_reservation:
  assumes p: "path req = [''api'', ''arma3-slotting'', t, ''match'', m, ''slot'', s, ''reservation'']" and t: "t \<noteq> []" "m \<noteq> []" "s \<noteq> []"
    and v: "verb req \<noteq> PUT" "verb req \<noteq> GET" "verb req \<noteq> DELETE" "verb req \<noteq> HEAD"
  shows "handle cfg h req =
           first_answer (gates_ahead cfg h (req\<lparr>params := [''tid'' \<mapsto> t]\<rparr>) @
                         [Respond 405 (msg ''Method not allowed'')])"
  unfolding handle_def init_def Let_def concat.simps dispatch_append
  using v by (cases "verb req") (simp_all add: route_eval gates_ahead_def p t split: outcome.splits)

text \<open>
  C8, as the claim states it, fails in two ways. A POST to the path of the slotted
  user ids, which the table lists with GET alone, passes every gate and finds no
  route that ends the request: the plugin sends no 405. And a DELETE of /:tid/match by
  a guest is answered 401 by the login gate registered ahead of \<open>methodNotAllowed\<close>.
\<close>

theorem unlisted_verb_not_405:
  "(''/:tid/slotted-user-ids'', [GET]) \<in> set surface \<and>
   seg_match (compile (prefixApiPath ''/:tid/slotted-user-ids'')) (path post_slotted_user_ids) \<noteq> None \<and>
   verb post_slotted_user_ids \<notin> set [GET] \<and>
   handle sample_config sample_host post_slotted_user_ids = Next \<and>
   (''/:tid/match'', [POST]) \<in> set surface \<and>
   seg_match (compile (prefixApiPath ''/:tid/match'')) (path (delete_match\<lparr>uid := None\<rparr>)) \<noteq> None \<and>
   verb (delete_match\<lparr>uid := None\<rparr>) \<notin> set [POST] \<and>
   handle sample_config sample_host (delete_match\<lparr>uid := None\<rparr>) = Respond 401 (msg ''plz log in to access this API'')"
proof -
  have a: "handle sample_config sample_host post_slotted_user_ids = Next" by code_simp
  have b: "handle sample_config sample_host (delete_match\<lparr>uid := None\<rparr>) = Respond 401 (msg ''plz log in to access this API'')"
    by code_simp
  show ?thesis
    using a b unfolding compiled by (simp add: surface_def post_slotted_user_ids_def delete_match_def)
qed


text \<open>
  C8, amended. On the six paths for which \<open>init\<close> registers \<open>methodNotAllowed\<close>, a
  request with a verb the table does not list for the path (HEAD counts as listed
  where GET is) is answered by the gates registered ahead, in their order, and by 405
  "Method not allowed" when all of them let it pass: \<open>requireTopic\<close> and
  \<open>restrictCategories\<close>, and for POST, PUT and DELETE also \<open>requireLoggedIn\<close>,
  \<open>restrictCategories\<close> and \<open>requireEventInFuture\<close>. The first gate that fails answers
  with its own status.
\<close>

theorem unlisted_verb_gates_then_405:
  assumes table: "(p, vs) \<in> set guarded"
    and pth: "seg_match (compile (prefixApiPath p)) (path req) = Some ps"
    and tid: "ps ''tid'' = Some t"
    and v: "verb req \<notin> set vs" and hd: "verb req = HEAD \<longrightarrow> GET \<notin> set vs"
  shows "handle cfg h req =
           first_answer (gates_ahead cfg h (req\<lparr>params := [''tid'' \<mapsto> t]\<rparr>) @
                         [Respond 405 (msg ''Method not allowed'')])"
proof -
  from table consider
      (a) "p = ''/:tid/match''" "vs = [POST]"
    | (b) "p = ''/:tid/match/:matchid''" "vs = [PUT, GET, DELETE]"
    | (c) "p = ''/:tid/match/:matchid/share''" "vs = [GET, POST, DELETE]"
    | (d) "p = ''/:tid/match/:matchid/slot''" "vs = [GET]"
    | (e) "p = ''/:tid/match/:matchid/slot/:slotid/user''" "vs = [PUT, DELETE, GET]"
    | (f) "p = ''/:tid/match/:matchid/slot/:slotid/reservation''" "vs = [PUT, DELETE, GET]"
    unfolding guarded_eq by auto
  then show ?thesis
  proof cases
    case a
    from pth tid have "path req = [''api'', ''arma3-slotting'', t, ''match'']" "t \<noteq> []"
      unfolding a compiled by (auto simp: seg_match_Lit seg_match_Param seg_match_Nil)
    then show ?thesis using on_match v unfolding a by simp
  next
    case b
    from pth tid obtain m where "path req = [''api'', ''arma3-slotting'', t, ''match'', m]" "t \<noteq> []" "m \<noteq> []"
      unfolding b compiled by (auto simp: seg_match_Lit seg_match_Param seg_match_Nil)
    then show ?thesis using on_matchid v hd unfolding b by simp
  next
    case c
    from pth tid obtain m where "path req = [''api'', ''arma3-slotting'', t, ''match'', m, ''share'']" "t \<noteq> []" "m \<noteq> []"
      unfolding c compiled by (auto simp: seg_match_Lit seg_match_Param seg_match_Nil)
    then show ?thesis using on_share v hd unfolding c by simp
  next
    case d
    from pth tid obtain m where "path req = [''api'', ''arma3-slotting'', t, ''match'', m, ''slot'']" "t \<noteq> []" "m \<noteq> []"
      unfolding d compiled by (auto simp: seg_match_Lit seg_match_Param seg_match_Nil)
    then show ?thesis using on_slot v hd unfolding d by simp
  next
    case e
    from pth tid obtain m s where "path req = [''api'', ''arma3-slotting'', t, ''match'', m, ''slot'', s, ''user'']"
      "t \<noteq> []" "m \<noteq> []" "s \<noteq> []"
      unfolding e compiled by (auto simp: seg_match_Lit seg_match_Param seg_match_Nil)
    then show ?thesis using on_user v hd unfolding e by simp
  next
    case f
    from pth tid obtain m s where "path req = [''api'', ''arma3-slotting'', t, ''match'', m, ''slot'', s, ''reservation'']"
      "t \<noteq> []" "m \<noteq> []" "s \<noteq> []"
      unfolding f compiled by (auto simp: seg_match_Lit seg_match_Param seg_match_Nil)
    then show ?thesis using on_reservation v hd unfolding f by simp
  qed
qed

theorem unlisted_verb_gates_then_405_witness:
  "(''/:tid/match'', [POST]) \<in> set guarded \<and> verb delete_match \<notin> set [POST] \<and>
   handle sample_config sample_host delete_match = Respond 405 (msg ''Method not allowed'') \<and>
   handle sample_config sample_host (delete_match\<lparr>uid := None\<rparr>)
     = Respond 401 (msg ''plz log in to access this API'') \<and>
   handle sample_config sample_host (delete_match\<lparr>path := [''api'', ''arma3-slotting'', ''6'', ''match'']\<rparr>)
     = Respond 404 (msg ''topic 6 does not exist'')"
proof -
  have table: "(''/:tid/match'', [POST]) \<in> set guarded" unfolding guarded_eq by simp
  have v: "verb delete_match \<notin> set [POST]" "verb delete_match = HEAD \<longrightarrow> GET \<notin> set [POST]"
    and v': "verb (delete_match\<lparr>uid := None\<rparr>) \<notin> set [POST]"
      "verb (delete_match\<lparr>uid := None\<rparr>) = HEAD \<longrightarrow> GET \<notin> set [POST]"
    and v'': "verb (delete_match\<lparr>path := [''api'', ''arma3-slotting'', ''6'', ''match'']\<rparr>) \<notin> set [POST]"
      "verb (delete_match\<lparr>path := [''api'', ''arma3-slotting'', ''6'', ''match'']\<rparr>) = HEAD \<longrightarrow> GET \<notin> set [POST]"
    by (simp_all add: delete_match_def)
  have pth: "seg_match (compile (prefixApiPath ''/:tid/match'')) (path delete_match) = Some [''tid'' \<mapsto> ''5'']"
    and pth': "seg_match (compile (prefixApiPath ''/:tid/match'')) (path (delete_match\<lparr>uid := None\<rparr>))
        = Some [''tid'' \<mapsto> ''5'']"
    and pth'': "seg_match (compile (prefixApiPath ''/:tid/match''))
        (path (delete_match\<lparr>path := [''api'', ''arma3-slotting'', ''6'', ''match'']\<rparr>)) = Some [''tid'' \<mapsto> ''6'']"
    unfolding compiled by (simp_all add: delete_match_def)
  have tid: "[''tid'' \<mapsto> ''5''] ''tid'' = Some ''5''" and tid'': "[''tid'' \<mapsto> ''6''] ''tid'' = Some ''6''"
    by simp_all
  have g: "first_answer (gates_ahead sample_config sample_host (delete_match\<lparr>params := [''tid'' \<mapsto> ''5'']\<rparr>) @
             [Respond 405 (msg ''Method not allowed'')]) = Respond 405 (msg ''Method not allowed'')"
    by code_simp
  have g': "first_answer (gates_ahead sample_config sample_host (delete_match\<lparr>uid := None, params := [''tid'' \<mapsto> ''5'']\<rparr>) @
             [Respond 405 (msg ''Method not allowed'')]) = Respond 401 (msg ''plz log in to access this API'')"
    by code_simp
  have g'': "first_answer (gates_ahead sample_config sample_host
               (delete_match\<lparr>path := [''api'', ''arma3-slotting'', ''6'', ''match''], params := [''tid'' \<mapsto> ''6'']\<rparr>) @
             [Respond 405 (msg ''Method not allowed'')]) = Respond 404 (msg ''topic 6 does not exist'')"
    by code_simp
  show ?thesis
    using table v(1) g g' g''
      unlisted_verb_gates_then_405 [OF table pth tid v, of sample_config sample_host]
      unlisted_verb_gates_then_405 [OF table pth' tid v', of sample_config sample_host]
      unlisted_verb_gates_then_405 [OF table pth'' tid'' v'', of sample_config sample_host]
    by simp
qed

end
